theory Spec2Isabelle
  imports Main "HOL-Library.AList"
begin

section \<open>JavaScript values\<close>

text \<open>
  The server receives its tool arguments as decoded JSON and hands them to the Readwise
  client unchecked (\<^verbatim>\<open>request.params.arguments as unknown as Highlight\<close>), so a
  highlight is modelled as what it is at run time: an arbitrary JavaScript value. The
  type of numbers is a parameter, since no arithmetic is ever done on them. A string is
  the list of its code units. An object is the list of its own enumerable properties in
  property order; \<^verbatim>\<open>undefined\<close> is a value of its own, distinct from
  \<^verbatim>\<open>null\<close>, and a property that is not in the list reads as
  \<^verbatim>\<open>undefined\<close>.
\<close>

datatype 'n jsval =
    JUndefined
  | JNull
  | JBool bool
  | JNumber 'n
  | JString string
  | JArray "'n jsval list"
  | JObject "(string \<times> 'n jsval) list"

type_synonym 'n props = "(string \<times> 'n jsval) list"

text \<open>\<^verbatim>\<open>Object.keys(o)\<close>, \<^verbatim>\<open>o[key]\<close> and \<^verbatim>\<open>o[key] = v\<close> on a plain object.\<close>

definition object_keys :: "'n props \<Rightarrow> string list" where
  "object_keys ps = map fst ps"

definition prop_get :: "'n props \<Rightarrow> string \<Rightarrow> 'n jsval" where
  "prop_get ps key = (case map_of ps key of None \<Rightarrow> JUndefined | Some v \<Rightarrow> v)"

definition prop_set :: "'n props \<Rightarrow> string \<Rightarrow> 'n jsval \<Rightarrow> 'n props" where
  "prop_set ps key v = AList.update key v ps"

definition has_own :: "'n props \<Rightarrow> string \<Rightarrow> bool" where
  "has_own ps key = (key \<in> set (object_keys ps))"

text \<open>Decimal rendering of an array index, as used for the property names of arrays and strings.\<close>

fun string_of_nat :: "nat \<Rightarrow> string" where
  "string_of_nat n =
     (if n < 10 then [''0123456789'' ! n]
      else string_of_nat (n div 10) @ [''0123456789'' ! (n mod 10)])"

text \<open>
  The object spread \<^verbatim>\<open>{ ...v }\<close>: the own enumerable properties of \<open>v\<close>. An object
  gives its properties, an array and a string give their indexed elements, and
  \<^verbatim>\<open>undefined\<close>, \<^verbatim>\<open>null\<close>, booleans and numbers give none.
\<close>

fun spread :: "'n jsval \<Rightarrow> 'n props" where
  "spread (JObject ps) = ps"
| "spread (JArray xs) = zip (map string_of_nat [0..<length xs]) xs"
| "spread (JString s) = zip (map string_of_nat [0..<length s]) (map (\<lambda>c. JString [c]) s)"
| "spread JUndefined = []"
| "spread JNull = []"
| "spread (JBool b) = []"
| "spread (JNumber n) = []"

section \<open>The Readwise client (services/readwise.ts)\<close>

datatype error = Error (message: string) | TypeError (message: string) | AxiosError (message: string)

subsection \<open>cleanHighlightData\<close>

text \<open>
  \<^verbatim>\<open>
  const cleanedHighlight: Highlight = { ...highlight };
  Object.keys(cleanedHighlight).forEach(key => {
    const value = cleanedHighlight[key as keyof Highlight];
    if (value === '') { (cleanedHighlight as any)[key] = null; }
  });
  return cleanedHighlight;
  \<close>
  \<open>clean_key\<close> is the body of the loop, run on the keys that the copy had before the
  loop started.
\<close>

definition clean_key :: "string \<Rightarrow> 'n props \<Rightarrow> 'n props" where
  "clean_key key cleanedHighlight =
     (let v = prop_get cleanedHighlight key
      in if v = JString [] then prop_set cleanedHighlight key JNull else cleanedHighlight)"

definition cleanHighlightData :: "'n jsval \<Rightarrow> 'n jsval" where
  "cleanHighlightData highlight =
     (let cleanedHighlight = spread highlight
      in JObject (fold clean_key (object_keys cleanedHighlight) cleanedHighlight))"

text \<open>The properties of the cleaned highlight, for reading them back.\<close>

definition cleaned_props :: "'n jsval \<Rightarrow> 'n props" where
  "cleaned_props highlight = spread (cleanHighlightData highlight)"

text \<open>What one pass of the loop body does to the value read at a key.\<close>

definition norm_read :: "'n jsval option \<Rightarrow> 'n jsval option" where
  "norm_read r = (if r = Some (JString []) then Some JNull else r)"

text \<open>The same on a stored value.\<close>

definition clean_value :: "'n jsval \<Rightarrow> 'n jsval" where
  "clean_value v = (if v = JString [] then JNull else v)"

subsection \<open>The HTTP layer\<close>

text \<open>
  The axios instance is outside the repository. It is a parameter: a function from the
  request to either the decoded response body (\<^verbatim>\<open>response.data\<close>) or the error that
  the promise is rejected with. Each client method returns the requests it issued
  together with its outcome.
\<close>

datatype http_method = GET | POST

record 'n request =
  http_method :: http_method
  url :: string
  body :: "'n jsval"

type_synonym 'n api = "'n request \<Rightarrow> error + 'n jsval"

type_synonym 'n outcome = "'n request list \<times> (error + 'n jsval)"

definition post_highlights :: "'n jsval list \<Rightarrow> 'n request" where
  "post_highlights hs =
     \<lparr>http_method = POST, url = ''/highlights/'', body = JObject [(''highlights'', JArray hs)]\<rparr>"

definition get_highlights :: "'n request" where
  "get_highlights = \<lparr>http_method = GET, url = ''/highlights/'', body = JUndefined\<rparr>"

text \<open>
  \<^verbatim>\<open>createHighlight\<close>: clean, wrap in a one-element array, post. The
  \<^verbatim>\<open>catch\<close> block logs (to a silenced console) and rethrows the same error.
\<close>

definition createHighlight :: "'n api \<Rightarrow> 'n jsval \<Rightarrow> 'n outcome" where
  "createHighlight api highlight =
     (let cleanedHighlight = cleanHighlightData highlight;
          req = post_highlights [cleanedHighlight]
      in ([req], api req))"

text \<open>
  \<^verbatim>\<open>createHighlights\<close>: \<^verbatim>\<open>highlights.map(...)\<close> is a TypeError unless
  \<open>highlights\<close> is an array (decoded JSON holds no functions); the wording of the message
  is the engine's. The error is raised before any request is made.
\<close>

definition createHighlights :: "'n api \<Rightarrow> 'n jsval \<Rightarrow> 'n outcome" where
  "createHighlights api highlights =
     (case highlights of
        JArray hs \<Rightarrow>
          (let cleanedHighlights = map cleanHighlightData hs;
               req = post_highlights cleanedHighlights
           in ([req], api req))
      | JUndefined \<Rightarrow> ([], Inl (TypeError ''Cannot read properties of undefined (reading 'map')''))
      | JNull \<Rightarrow> ([], Inl (TypeError ''Cannot read properties of null (reading 'map')''))
      | _ \<Rightarrow> ([], Inl (TypeError ''highlights.map is not a function'')))"

definition getHighlights :: "'n api \<Rightarrow> 'n outcome" where
  "getHighlights api = ([get_highlights], api get_highlights)"

section \<open>The tool dispatcher (index.ts)\<close>

record content_item =
  type :: string
  "text" :: string

record tool_result =
  content :: "content_item list"
  isError :: bool

text \<open>
  The two envelopes the handler builds. \<open>stringify\<close> stands for the built-in
  \<^verbatim>\<open>JSON.stringify(result, null, 2)\<close> and is a parameter.
\<close>

definition ok_result :: "('n jsval \<Rightarrow> string) \<Rightarrow> 'n jsval \<Rightarrow> tool_result" where
  "ok_result stringify result =
     \<lparr>content = [\<lparr>type = ''text'', text = stringify result\<rparr>], isError = False\<rparr>"

definition error_result :: "error \<Rightarrow> tool_result" where
  "error_result e =
     \<lparr>content = [\<lparr>type = ''text'', text = ''Error: '' @ message e\<rparr>], isError = True\<rparr>"

text \<open>
  \<^verbatim>\<open>params.highlights\<close>: reading a property of \<^verbatim>\<open>undefined\<close> or
  \<^verbatim>\<open>null\<close> is a TypeError; an object gives the property or
  \<^verbatim>\<open>undefined\<close>; no other value has a property of that name.
\<close>

definition read_highlights :: "'n jsval \<Rightarrow> error + 'n jsval" where
  "read_highlights params =
     (case params of
        JUndefined \<Rightarrow> Inl (TypeError ''Cannot read properties of undefined (reading 'highlights')'')
      | JNull \<Rightarrow> Inl (TypeError ''Cannot read properties of null (reading 'highlights')'')
      | JObject ps \<Rightarrow> Inr (prop_get ps ''highlights'')
      | _ \<Rightarrow> Inr JUndefined)"

type_synonym 'n handled = "'n request list \<times> (error + tool_result)"

text \<open>On success every branch wraps the client's result the same way.\<close>

definition respond :: "('n jsval \<Rightarrow> string) \<Rightarrow> 'n outcome \<Rightarrow> 'n handled" where
  "respond stringify out =
     (case out of
        (sent, Inl e) \<Rightarrow> (sent, Inl e)
      | (sent, Inr result) \<Rightarrow> (sent, Inr (ok_result stringify result)))"

text \<open>
  The \<^verbatim>\<open>try\<close> block of the CallToolRequest handler; \<open>Inl\<close> is an exception
  leaving the block. \<open>name\<close> is \<^verbatim>\<open>request.params.name\<close> and \<open>arguments\<close> is
  \<^verbatim>\<open>request.params.arguments\<close> (\<open>JUndefined\<close> when the request has none).
\<close>

definition callToolTry :: "'n api \<Rightarrow> ('n jsval \<Rightarrow> string) \<Rightarrow> string \<Rightarrow> 'n jsval \<Rightarrow> 'n handled" where
  "callToolTry api stringify name arguments =
     (if name = ''create_highlight'' then
        respond stringify (createHighlight api arguments)
      else if name = ''create_highlights'' then
        (case read_highlights arguments of
           Inl e \<Rightarrow> ([], Inl e)
         | Inr highlights \<Rightarrow> respond stringify (createHighlights api highlights))
      else if name = ''get_highlights'' then
        respond stringify (getHighlights api)
      else ([], Inl (Error (''Unknown tool: '' @ name))))"

text \<open>
  The handler: the \<^verbatim>\<open>try\<close> block and its \<^verbatim>\<open>catch\<close>, which turns the error
  into a result. \<open>Inl\<close> in the handler's own outcome would be an exception reaching the
  transport.
\<close>

definition callTool :: "'n api \<Rightarrow> ('n jsval \<Rightarrow> string) \<Rightarrow> string \<Rightarrow> 'n jsval \<Rightarrow> 'n handled" where
  "callTool api stringify name arguments =
     (case callToolTry api stringify name arguments of
        (sent, Inl e) \<Rightarrow> (sent, Inr (error_result e))
      | (sent, Inr r) \<Rightarrow> (sent, Inr r))"

definition known_tools :: "string list" where
  "known_tools = [''create_highlight'', ''create_highlights'', ''get_highlights'']"

section \<open>Credential resolution\<close>

subsection \<open>getApiToken (services/readwise.ts)\<close>

text \<open>
  The inputs are the value of \<^verbatim>\<open>process.env.READWISE_API_TOKEN\<close> (after the dotenv
  library has run) and the state of the file \<^verbatim>\<open>.env\<close>: not there, there but
  \<^verbatim>\<open>readFileSync\<close> throws, or its contents.
\<close>

datatype env_file = NoFile | ReadError | Contents string

text \<open>
  The regular expression
  \<^verbatim>\<open>/READWISE_API_TOKEN=(['"]?([^'"\r\n]+)['"]?|([^\s\r\n]+))/\<close>.
  \<open>is_space\<close> is the class \<^verbatim>\<open>\s\<close> on the code units below 256.
\<close>

definition is_quote :: "char \<Rightarrow> bool" where
  "is_quote c = (c = CHR 0x27 \<or> c = CHR 0x22)"

definition is_newline :: "char \<Rightarrow> bool" where
  "is_newline c = (c = CHR 0x0D \<or> c = CHR 0x0A)"

definition is_space :: "char \<Rightarrow> bool" where
  "is_space c = (c \<in> set [CHR 0x09, CHR 0x0A, CHR 0x0B, CHR 0x0C, CHR 0x0D, CHR 0x20, CHR 0xA0])"

definition plain :: "char \<Rightarrow> bool" where
  "plain c = (\<not> is_quote c \<and> \<not> is_newline c)"

text \<open>
  First alternative, \<^verbatim>\<open>['"]?([^'"\r\n]+)['"]?\<close>, at the text after the equals
  sign. The optional opening quote is greedy: it is taken if there is one, and given back
  only if no plain character follows it. The run of plain characters is greedy and nothing
  after it can fail, so it is the longest one. The result is group 2.
\<close>

definition alt_quoted :: "string \<Rightarrow> string option" where
  "alt_quoted s =
     (let after_quote = (case s of [] \<Rightarrow> [] | c # cs \<Rightarrow> if is_quote c then takeWhile plain cs else [])
      in if after_quote \<noteq> [] then Some after_quote
         else if takeWhile plain s \<noteq> [] then Some (takeWhile plain s)
         else None)"

text \<open>Second alternative, \<^verbatim>\<open>([^\s\r\n]+)\<close>: the result is group 3.\<close>

definition alt_bare :: "string \<Rightarrow> string option" where
  "alt_bare s =
     (if takeWhile (\<lambda>c. \<not> is_space c \<and> \<not> is_newline c) s \<noteq> []
      then Some (takeWhile (\<lambda>c. \<not> is_space c \<and> \<not> is_newline c) s) else None)"

text \<open>A successful match, with groups 2 and 3 (\<open>None\<close> is \<^verbatim>\<open>undefined\<close>).\<close>

datatype regex_match = Match (group2: "string option") (group3: "string option")

definition match_value :: "string \<Rightarrow> regex_match option" where
  "match_value s =
     (case alt_quoted s of
        Some v \<Rightarrow> Some (Match (Some v) None)
      | None \<Rightarrow>
          (case alt_bare s of
             Some w \<Rightarrow> Some (Match None (Some w))
           | None \<Rightarrow> None))"

definition token_key :: string where
  "token_key = ''READWISE_API_TOKEN=''"

text \<open>\<^verbatim>\<open>envFile.match(...)\<close>: the match at the leftmost position where there is one.\<close>

fun token_match :: "string \<Rightarrow> regex_match option" where
  "token_match [] = None"
| "token_match (c # cs) =
     (if take (length token_key) (c # cs) = token_key then
        (case match_value (drop (length token_key) (c # cs)) of
           Some m \<Rightarrow> Some m
         | None \<Rightarrow> token_match cs)
      else token_match cs)"

text \<open>
  The expression matches \<open>s\<close> at offset \<open>i\<close>: the key stands there and a value follows it.
  \<open>matches_before s n\<close>: it matches at some offset below \<open>n\<close>.
\<close>

definition matches_at :: "string \<Rightarrow> nat \<Rightarrow> bool" where
  "matches_at s i =
     (take (length token_key) (drop i s) = token_key
      \<and> match_value (drop (i + length token_key) s) \<noteq> None)"

definition matches_before :: "string \<Rightarrow> nat \<Rightarrow> bool" where
  "matches_before s n = list_ex (matches_at s) [0..<n]"

text \<open>A string, or \<^verbatim>\<open>undefined\<close>, used as a condition.\<close>

definition truthy :: "string option \<Rightarrow> bool" where
  "truthy v = (case v of None \<Rightarrow> False | Some s \<Rightarrow> s \<noteq> [])"

text \<open>
  The \<^verbatim>\<open>try\<close> block of \<^verbatim>\<open>getApiToken\<close>: \<open>Some\<close> is the value it returns,
  \<open>None\<close> is falling through to the \<^verbatim>\<open>throw\<close>, also after the empty
  \<^verbatim>\<open>catch\<close>.
\<close>

definition token_from_file :: "env_file \<Rightarrow> string option" where
  "token_from_file file =
     (case file of
        NoFile \<Rightarrow> None
      | ReadError \<Rightarrow> None
      | Contents envFile \<Rightarrow>
          (case token_match envFile of
             None \<Rightarrow> None
           | Some m \<Rightarrow>
               if truthy (group2 m) \<or> truthy (group3 m)
               then (if truthy (group2 m) then group2 m else group3 m)
               else None))"

definition missing_token :: error where
  "missing_token = Error ''Readwise API token not found. Please provide it as a command-line argument or environment variable.''"

definition getApiToken :: "string option \<Rightarrow> env_file \<Rightarrow> error + string" where
  "getApiToken env file =
     (case (if truthy env then env else None) of
        Some token \<Rightarrow> Inr token
      | None \<Rightarrow>
          (case token_from_file file of
             Some token \<Rightarrow> Inr token
           | None \<Rightarrow> Inl missing_token))"

subsection \<open>The token of the server (index.ts)\<close>

text \<open>
  \<^verbatim>\<open>apiToken = args.length > 0 ? args[0] : getApiToken()\<close>, where \<open>args\<close> is
  \<^verbatim>\<open>process.argv.slice(2)\<close>.
\<close>

definition resolveToken :: "string list \<Rightarrow> string option \<Rightarrow> env_file \<Rightarrow> error + string" where
  "resolveToken args env file =
     (if length args > 0 then Inr (args ! 0) else getApiToken env file)"

text \<open>
  The start of the process. Importing \<^verbatim>\<open>./services/readwise\<close> evaluates that module
  first, and its last line builds a default client from \<^verbatim>\<open>getApiToken()\<close>; an error
  there is uncaught. Then index.ts resolves its own token, and exits with status 1 when
  that fails.
\<close>

datatype process = Uncaught error | Exited nat | Serving string

definition start_process :: "string list \<Rightarrow> string option \<Rightarrow> env_file \<Rightarrow> process" where
  "start_process args env file =
     (case getApiToken env file of
        Inl e \<Rightarrow> Uncaught e
      | Inr default_token \<Rightarrow>
          (case resolveToken args env file of
             Inl e \<Rightarrow> Exited 1
           | Inr apiToken \<Rightarrow> Serving apiToken))"

section \<open>Stand-ins for the examples\<close>

text \<open>
  An upstream that answers every request with the same body, one that rejects every
  request with the same error, and a serializer that prints every value the same way.
  They are used only to run the model on concrete inputs.
\<close>

definition stub_api :: "'n jsval \<Rightarrow> 'n api" where
  "stub_api r req = Inr r"

definition failing_api :: "error \<Rightarrow> 'n api" where
  "failing_api e req = Inl e"

definition stub_stringify :: "'n jsval \<Rightarrow> string" where
  "stub_stringify v = ''<json>''"

section \<open>Properties of cleanHighlightData\<close>

lemma prop_get_empty_iff: "prop_get ps k = JString [] \<longleftrightarrow> map_of ps k = Some (JString [])"
  by (simp add: prop_get_def split: option.splits)

lemma clean_key_keys: "object_keys (clean_key k ps) = object_keys ps"
proof (cases "map_of ps k = Some (JString [])")
  case True
  then have "k \<in> fst ` set ps"
    by (metis map_of_eq_None_iff option.distinct(1))
  then show ?thesis
    using True
    by (simp add: clean_key_def prop_get_empty_iff prop_set_def object_keys_def update_keys)
next
  case False
  then show ?thesis
    by (simp add: clean_key_def prop_get_empty_iff)
qed

lemma clean_key_map_of:
  "map_of (clean_key k ps) k' = (if k' = k then norm_read (map_of ps k) else map_of ps k')"
  by (simp add: clean_key_def prop_get_empty_iff prop_set_def update_conv' norm_read_def)

lemma norm_read_idem: "norm_read (norm_read r) = norm_read r"
  by (simp add: norm_read_def)

lemma fold_clean_key_keys: "object_keys (fold clean_key ks ps) = object_keys ps"
  by (induction ks arbitrary: ps) (simp_all add: clean_key_keys)

lemma fold_clean_key_map_of:
  "map_of (fold clean_key ks ps) k = (if k \<in> set ks then norm_read (map_of ps k) else map_of ps k)"
proof (induction ks arbitrary: ps)
  case Nil
  then show ?case by simp
next
  case (Cons a ks)
  show ?case
    by (simp add: Cons.IH clean_key_map_of norm_read_idem)
qed

lemma fold_clean_key_fixed:
  "\<forall>k \<in> set ks. map_of ps k \<noteq> Some (JString []) \<Longrightarrow> fold clean_key ks ps = ps"
proof (induction ks arbitrary: ps)
  case Nil
  then show ?case by simp
next
  case (Cons a ks)
  then have "clean_key a ps = ps"
    by (simp add: clean_key_def prop_get_empty_iff)
  with Cons show ?case by simp
qed

lemma cleaned_props_fold:
  "cleaned_props h = fold clean_key (object_keys (spread h)) (spread h)"
  by (simp add: cleaned_props_def cleanHighlightData_def Let_def)

lemma cleanHighlightData_props: "cleanHighlightData h = JObject (cleaned_props h)"
  by (simp add: cleaned_props_def cleanHighlightData_def Let_def)

lemma cleaned_props_keys: "object_keys (cleaned_props h) = object_keys (spread h)"
  by (simp add: cleaned_props_fold fold_clean_key_keys)

lemma cleaned_props_map_of: "map_of (cleaned_props h) k = norm_read (map_of (spread h) k)"
proof (cases "k \<in> set (object_keys (spread h))")
  case True
  then show ?thesis
    by (simp add: cleaned_props_fold fold_clean_key_map_of)
next
  case False
  then have "map_of (spread h) k = None"
    by (simp add: object_keys_def map_of_eq_None_iff)
  with False show ?thesis
    by (simp add: cleaned_props_fold fold_clean_key_map_of norm_read_def)
qed

lemma cleaned_props_get:
  "prop_get (cleaned_props h) k =
     (if prop_get (spread h) k = JString [] then JNull else prop_get (spread h) k)"
  by (simp add: prop_get_def cleaned_props_map_of norm_read_def split: option.splits)

lemma same_keys_same_reads:
  "map fst xs = map fst ys \<Longrightarrow> distinct (map fst xs) \<Longrightarrow> map_of xs = map_of ys \<Longrightarrow> xs = ys"
proof (induction xs arbitrary: ys)
  case Nil
  then show ?case by simp
next
  case (Cons x xs)
  then obtain y ys' where ys: "ys = y # ys'" by (cases ys) auto
  from Cons.prems(1) ys have k: "fst x = fst y" and ks: "map fst xs = map fst ys'" by simp_all
  from Cons.prems(2) have nx: "fst x \<notin> set (map fst xs)" and d: "distinct (map fst xs)" by simp_all
  from nx ks have ny: "fst x \<notin> set (map fst ys')" by simp
  have eq: "map_of (x # xs) k' = map_of (y # ys') k'" for k'
    using Cons.prems(3) unfolding ys by (rule fun_cong)
  from eq [of "fst x"] k have v: "snd x = snd y"
    by (cases x; cases y) simp
  have "map_of xs = map_of ys'"
  proof
    fix k'
    show "map_of xs k' = map_of ys' k'"
    proof (cases "k' = fst x")
      case True
      with nx ny have "map_of xs k' = None" "map_of ys' k' = None"
        by (simp_all add: map_of_eq_None_iff)
      then show ?thesis by simp
    next
      case False
      with eq [of k'] k show ?thesis
        by (cases x; cases y) simp
    qed
  qed
  with Cons.IH ks d have "xs = ys'" by blast
  with k v ys show ?case by (cases x; cases y) simp
qed

text \<open>
  On an object, whose keys are distinct, the loop is an entry-wise map: positions and keys
  stay, and exactly the empty strings become \<^verbatim>\<open>null\<close>.
\<close>

lemma cleaned_props_entrywise:
  assumes "distinct (object_keys (spread h))"
  shows "cleaned_props h = map (\<lambda>(k, v). (k, clean_value v)) (spread h)"
proof (rule same_keys_same_reads)
  show "map fst (cleaned_props h) = map fst (map (\<lambda>(k, v). (k, clean_value v)) (spread h))"
    using cleaned_props_keys [of h] by (simp add: object_keys_def case_prod_unfold comp_def)
  show "distinct (map fst (cleaned_props h))"
    using assms cleaned_props_keys [of h] by (simp add: object_keys_def)
  show "map_of (cleaned_props h) = map_of (map (\<lambda>(k, v). (k, clean_value v)) (spread h))"
  proof
    fix k
    have "map_of (map (\<lambda>(k, v). (k, clean_value v)) (spread h)) k = map_option clean_value (map_of (spread h) k)"
      by (simp add: map_of_map)
    then show "map_of (cleaned_props h) k = map_of (map (\<lambda>(k, v). (k, clean_value v)) (spread h)) k"
      by (cases "map_of (spread h) k") (simp_all add: cleaned_props_map_of norm_read_def clean_value_def)
  qed
qed

lemma cleaned_props_no_empty: "map_of (cleaned_props h) k \<noteq> Some (JString [])"
  by (simp add: cleaned_props_map_of norm_read_def)

lemma cleaned_props_has_own: "has_own (cleaned_props h) k = has_own (spread h) k"
  by (simp add: has_own_def cleaned_props_keys)

lemma prop_get_has_own:
  assumes "prop_get ps k \<noteq> JUndefined"
  shows "has_own ps k"
proof -
  from assms have "map_of ps k \<noteq> None"
    by (cases "map_of ps k") (simp_all add: prop_get_def)
  then show ?thesis
    by (simp add: has_own_def object_keys_def map_of_eq_None_iff)
qed

lemma cleanHighlightData_fun: "cleanHighlightData = (\<lambda>h. JObject (cleaned_props h))"
  by (rule ext) (simp add: cleanHighlightData_props)

lemma cleanHighlightData_again: "cleanHighlightData (cleanHighlightData h) = cleanHighlightData h"
proof -
  have "fold clean_key (object_keys (cleaned_props h)) (cleaned_props h) = cleaned_props h"
    by (rule fold_clean_key_fixed) (simp add: cleaned_props_no_empty)
  then have "cleanHighlightData (JObject (cleaned_props h)) = JObject (cleaned_props h)"
    by (simp add: cleanHighlightData_def Let_def)
  then show ?thesis
    by (simp add: cleanHighlightData_props)
qed

section \<open>Properties of the client\<close>

lemma createHighlight_sent:
  "createHighlight api h =
     ([post_highlights [cleanHighlightData h]], api (post_highlights [cleanHighlightData h]))"
  by (simp add: createHighlight_def Let_def)

lemma createHighlights_sent:
  "createHighlights api (JArray hs) =
     ([post_highlights (map cleanHighlightData hs)],
      api (post_highlights (map cleanHighlightData hs)))"
  by (simp add: createHighlights_def Let_def)

section \<open>The claims about cleanHighlightData\<close>

text \<open>
  C10. cleanHighlightData is idempotent: cleaning a cleaned highlight gives the cleaned
  highlight again. It keeps the keys and their order, and every field whose value is not
  the empty string reads the same after cleaning as before.
\<close>

theorem cleanHighlightData_idempotent:
  "cleanHighlightData (cleanHighlightData h) = cleanHighlightData h
   \<and> object_keys (cleaned_props h) = object_keys (spread h)
   \<and> (prop_get (spread h) k \<noteq> JString [] \<longrightarrow>
        prop_get (cleaned_props h) k = prop_get (spread h) k)"
  by (simp add: cleanHighlightData_again cleaned_props_keys cleaned_props_get)

theorem cleanHighlightData_idempotent_witness:
  "cleanHighlightData (cleanHighlightData
      (JObject [(''text'', JString ''x''), (''title'', JString []), (''location'', JNumber (3::int))]))
    = cleanHighlightData
      (JObject [(''text'', JString ''x''), (''title'', JString []), (''location'', JNumber (3::int))])
   \<and> prop_get (spread
      (JObject [(''text'', JString ''x''), (''title'', JString []), (''location'', JNumber (3::int))]))
      ''location'' \<noteq> JString []
   \<and> prop_get (cleaned_props
      (JObject [(''text'', JString ''x''), (''title'', JString []), (''location'', JNumber (3::int))]))
      ''location'' = JNumber 3"
  using cleanHighlightData_idempotent
    [of "JObject [(''text'', JString ''x''), (''title'', JString []), (''location'', JNumber (3::int))]"
        "''location''"]
  by (simp add: prop_get_def)

text \<open>
  C1, as stated, fails: a field given as the empty string is not absent from the payload.
  Here \<open>title\<close> is still an own property of the highlight that is posted, with the value
  \<^verbatim>\<open>null\<close>.
\<close>

theorem emptied_field_stays_in_payload:
  "createHighlight (stub_api JNull)
      (JObject [(''text'', JString ''x''), (''title'', JString [])])
    = ([\<lparr>http_method = POST, url = ''/highlights/'',
         body = JObject [(''highlights'',
           JArray [JObject [(''text'', JString ''x''), (''title'', JNull :: int jsval)]])]\<rparr>],
       Inr JNull)
   \<and> cleaned_props (JObject [(''text'', JString ''x''), (''title'', JString [] :: int jsval)])
       = [(''text'', JString ''x''), (''title'', JNull)]
   \<and> has_own (cleaned_props (JObject [(''text'', JString ''x''), (''title'', JString [] :: int jsval)]))
        ''title''"
  by (simp add: createHighlight_sent post_highlights_def cleanHighlightData_props
      cleaned_props_fold stub_api_def object_keys_def clean_key_def prop_get_def prop_set_def
      has_own_def)

text \<open>
  C1, amended. createHighlight makes one request, a POST to \<open>/highlights/\<close> whose body is
  \<open>{highlights: [c]}\<close> with \<open>c\<close> the cleaned highlight, and createHighlights one whose
  body holds the cleaned highlights in the \<open>highlights\<close> array. In a cleaned highlight
  every field that was the empty string is still present and holds \<^verbatim>\<open>null\<close>, and
  no field reads as the empty string; on an object the cleaning changes exactly the
  empty strings, entry by entry.
\<close>

theorem empty_string_fields_sent_as_null:
  "fst (createHighlight api h) =
     [\<lparr>http_method = POST, url = ''/highlights/'',
       body = JObject [(''highlights'', JArray [JObject (cleaned_props h)])]\<rparr>]
   \<and> fst (createHighlights api (JArray hs)) =
     [\<lparr>http_method = POST, url = ''/highlights/'',
       body = JObject [(''highlights'', JArray (map (\<lambda>h. JObject (cleaned_props h)) hs))]\<rparr>]
   \<and> (prop_get (spread h) k = JString [] \<longrightarrow>
        has_own (cleaned_props h) k \<and> prop_get (cleaned_props h) k = JNull)
   \<and> prop_get (cleaned_props h) k \<noteq> JString []
   \<and> (distinct (object_keys (spread h)) \<longrightarrow>
        cleaned_props h = map (\<lambda>(k, v). (k, clean_value v)) (spread h))"
proof -
  have "prop_get (spread h) k = JString [] \<Longrightarrow> has_own (cleaned_props h) k"
    using prop_get_has_own [of "spread h" k] by (simp add: cleaned_props_has_own)
  moreover have "distinct (object_keys (spread h)) \<longrightarrow>
      cleaned_props h = map (\<lambda>(k, v). (k, clean_value v)) (spread h)"
    using cleaned_props_entrywise [of h] by blast
  ultimately show ?thesis
    by (simp add: createHighlight_sent createHighlights_sent post_highlights_def
        cleanHighlightData_fun cleaned_props_get)
qed

theorem empty_string_fields_sent_as_null_witness:
  "prop_get (spread (JObject [(''text'', JString ''x''), (''title'', JString [] :: int jsval)])) ''title''
     = JString []
   \<and> has_own (cleaned_props (JObject [(''text'', JString ''x''), (''title'', JString [] :: int jsval)]))
        ''title''
   \<and> prop_get (cleaned_props (JObject [(''text'', JString ''x''), (''title'', JString [] :: int jsval)]))
        ''title'' = JNull
   \<and> distinct (object_keys (spread (JObject [(''text'', JString ''x''), (''title'', JString [] :: int jsval)])))
   \<and> cleaned_props (JObject [(''text'', JString ''x''), (''title'', JString [] :: int jsval)])
       = [(''text'', JString ''x''), (''title'', JNull)]
   \<and> fst (createHighlight (stub_api JNull)
        (JObject [(''text'', JString ''x''), (''title'', JString [] :: int jsval)]))
       = [\<lparr>http_method = POST, url = ''/highlights/'',
           body = JObject [(''highlights'',
             JArray [JObject [(''text'', JString ''x''), (''title'', JNull)]])]\<rparr>]
   \<and> fst (createHighlights (stub_api JNull)
        (JArray [JObject [(''text'', JString ''x''), (''title'', JString [] :: int jsval)],
                 JObject [(''text'', JString ''y''), (''note'', JString [])]]))
       = [\<lparr>http_method = POST, url = ''/highlights/'',
           body = JObject [(''highlights'',
             JArray [JObject [(''text'', JString ''x''), (''title'', JNull)],
                     JObject [(''text'', JString ''y''), (''note'', JNull)]])]\<rparr>]"
  using empty_string_fields_sent_as_null
    [of "stub_api JNull" "JObject [(''text'', JString ''x''), (''title'', JString [] :: int jsval)]"
        "[JObject [(''text'', JString ''x''), (''title'', JString [] :: int jsval)],
          JObject [(''text'', JString ''y''), (''note'', JString [])]]" "''title''"]
    empty_string_fields_sent_as_null
    [of "stub_api JNull" "JObject [(''text'', JString ''y''), (''note'', JString [] :: int jsval)]"
        "[]" "''note''"]
  by (simp add: prop_get_def object_keys_def clean_value_def has_own_def)

text \<open>
  C9. The required field \<open>text\<close> is cleaned like every other field. A highlight whose
  \<open>text\<close> is the empty string is not rejected by the client: createHighlight and
  createHighlights make their one POST to \<open>/highlights/\<close> with the cleaned highlight in the
  \<open>highlights\<close> array of the body, their outcome is the answer of the upstream to that
  request, and in the posted highlight \<open>text\<close> is present and holds \<^verbatim>\<open>null\<close>
  instead of the empty string.
\<close>

theorem empty_text_is_cleaned_and_sent:
  "prop_get (spread h) ''text'' = JString [] \<longrightarrow>
     createHighlight api h =
       ([\<lparr>http_method = POST, url = ''/highlights/'',
          body = JObject [(''highlights'', JArray [JObject (cleaned_props h)])]\<rparr>],
        api \<lparr>http_method = POST, url = ''/highlights/'',
          body = JObject [(''highlights'', JArray [JObject (cleaned_props h)])]\<rparr>)
     \<and> createHighlights api (JArray (before @ h # after)) =
       ([\<lparr>http_method = POST, url = ''/highlights/'',
          body = JObject [(''highlights'',
            JArray (map cleanHighlightData before @ JObject (cleaned_props h)
              # map cleanHighlightData after))]\<rparr>],
        api \<lparr>http_method = POST, url = ''/highlights/'',
          body = JObject [(''highlights'',
            JArray (map cleanHighlightData before @ JObject (cleaned_props h)
              # map cleanHighlightData after))]\<rparr>)
     \<and> has_own (cleaned_props h) ''text''
     \<and> prop_get (cleaned_props h) ''text'' = JNull
     \<and> prop_get (cleaned_props h) ''text'' \<noteq> JString []"
proof -
  have "prop_get (spread h) ''text'' = JString [] \<Longrightarrow> has_own (cleaned_props h) ''text''"
    using prop_get_has_own [of "spread h" "''text''"] by (simp add: cleaned_props_has_own)
  then show ?thesis
    by (simp add: createHighlight_sent createHighlights_sent post_highlights_def
        cleanHighlightData_props cleaned_props_get)
qed

theorem empty_text_is_cleaned_and_sent_witness:
  "prop_get (spread (JObject [(''text'', JString [] :: int jsval)])) ''text'' = JString []
   \<and> createHighlight (stub_api JNull) (JObject [(''text'', JString [] :: int jsval)]) =
       ([\<lparr>http_method = POST, url = ''/highlights/'',
          body = JObject [(''highlights'', JArray [JObject [(''text'', JNull)]])]\<rparr>],
        Inr JNull)
   \<and> createHighlights (stub_api JNull)
        (JArray [JObject [(''text'', JString ''a'')], JObject [(''text'', JString [] :: int jsval)]]) =
       ([\<lparr>http_method = POST, url = ''/highlights/'',
          body = JObject [(''highlights'',
            JArray [JObject [(''text'', JString ''a'')], JObject [(''text'', JNull)]])]\<rparr>],
        Inr JNull)"
  using empty_text_is_cleaned_and_sent
    [of "JObject [(''text'', JString [] :: int jsval)]" "stub_api JNull"
        "[JObject [(''text'', JString ''a'')]]" "[]"]
  by (simp add: prop_get_def stub_api_def cleanHighlightData_props cleaned_props_fold
      object_keys_def clean_key_def prop_set_def)

section \<open>Properties of the dispatcher\<close>

lemma respond_Inr: "respond stringify (sent, Inr r) = (sent, Inr (ok_result stringify r))"
  by (simp add: respond_def)

lemma respond_Inl: "respond stringify (sent, Inl e) = (sent, Inl e)"
  by (simp add: respond_def)

lemma callTool_caught:
  "callToolTry api stringify name args = (sent, Inl e) \<Longrightarrow>
   callTool api stringify name args = (sent, Inr (error_result e))"
  by (simp add: callTool_def)

lemma callTool_passed:
  "callToolTry api stringify name args = (sent, Inr r) \<Longrightarrow>
   callTool api stringify name args = (sent, Inr r)"
  by (simp add: callTool_def)

lemma callTool_returns: "\<not> isl (snd (callTool api stringify name args))"
proof (cases "callToolTry api stringify name args")
  case (Pair sent res)
  then show ?thesis
    by (cases res) (simp_all add: callTool_def)
qed

lemma try_create_highlight:
  "callToolTry api stringify ''create_highlight'' args =
     respond stringify (createHighlight api args)"
  by (simp add: callToolTry_def)

lemma try_create_highlights:
  "callToolTry api stringify ''create_highlights'' args =
     (case read_highlights args of
        Inl e \<Rightarrow> ([], Inl e)
      | Inr highlights \<Rightarrow> respond stringify (createHighlights api highlights))"
  by (simp add: callToolTry_def)

lemma try_get_highlights:
  "callToolTry api stringify ''get_highlights'' args = respond stringify (getHighlights api)"
  by (simp add: callToolTry_def)

lemma try_unknown:
  "name \<notin> set known_tools \<Longrightarrow>
   callToolTry api stringify name args = ([], Inl (Error (''Unknown tool: '' @ name)))"
  by (simp add: callToolTry_def known_tools_def)


lemma read_highlights_object:
  "read_highlights (JObject [(''highlights'', v)]) = Inr v"
  by (simp add: read_highlights_def prop_get_def)

section \<open>The claims about the dispatcher\<close>

text \<open>
  C2. The handler always returns a result: its outcome is never an exception, whatever
  the tool name, the arguments and the upstream are. An error that leaves the
  \<^verbatim>\<open>try\<close> block becomes the result whose only content item is the text
  \<open>Error: \<close> followed by the message, with \<open>isError\<close> set. That holds for a failure of
  each client method and for a failure while reading \<open>highlights\<close> from the arguments.
\<close>

theorem callTool_never_throws:
  "\<not> isl (snd (callTool api stringify name args))
   \<and> (callToolTry api stringify name args = (sent, Inl e) \<longrightarrow>
        callTool api stringify name args =
          (sent, Inr \<lparr>content = [\<lparr>type = ''text'', text = ''Error: '' @ message e\<rparr>],
                      isError = True\<rparr>))
   \<and> (createHighlight api args = (sent, Inl e) \<longrightarrow>
        callTool api stringify ''create_highlight'' args = (sent, Inr (error_result e)))
   \<and> (read_highlights args = Inr hs \<and> createHighlights api hs = (sent, Inl e) \<longrightarrow>
        callTool api stringify ''create_highlights'' args = (sent, Inr (error_result e)))
   \<and> (read_highlights args = Inl e \<longrightarrow>
        callTool api stringify ''create_highlights'' args = ([], Inr (error_result e)))
   \<and> (getHighlights api = (sent, Inl e) \<longrightarrow>
        callTool api stringify ''get_highlights'' args = (sent, Inr (error_result e)))"
proof -
  have general: "callToolTry api stringify name args = (sent, Inl e) \<longrightarrow>
      callTool api stringify name args =
        (sent, Inr \<lparr>content = [\<lparr>type = ''text'', text = ''Error: '' @ message e\<rparr>],
                    isError = True\<rparr>)"
    using callTool_caught [of api stringify name args sent e]
    by (simp add: error_result_def)
  have one: "createHighlight api args = (sent, Inl e) \<longrightarrow>
      callTool api stringify ''create_highlight'' args = (sent, Inr (error_result e))"
    by (simp add: callTool_caught try_create_highlight respond_Inl)
  have many: "read_highlights args = Inr hs \<and> createHighlights api hs = (sent, Inl e) \<longrightarrow>
      callTool api stringify ''create_highlights'' args = (sent, Inr (error_result e))"
    by (simp add: callTool_caught try_create_highlights respond_Inl)
  have reading: "read_highlights args = Inl e \<longrightarrow>
      callTool api stringify ''create_highlights'' args = ([], Inr (error_result e))"
    by (simp add: callTool_caught try_create_highlights)
  have listing: "getHighlights api = (sent, Inl e) \<longrightarrow>
      callTool api stringify ''get_highlights'' args = (sent, Inr (error_result e))"
    by (simp add: callTool_caught try_get_highlights respond_Inl)
  from callTool_returns general one many reading listing show ?thesis
    by blast
qed

theorem callTool_never_throws_witness:
  "createHighlight (failing_api (AxiosError ''Request failed with status code 401''))
      (JObject [(''text'', JString ''hello'' :: int jsval)])
    = ([post_highlights [JObject [(''text'', JString ''hello'')]]],
       Inl (AxiosError ''Request failed with status code 401''))
   \<and> callToolTry (failing_api (AxiosError ''Request failed with status code 401'')) stub_stringify
        ''create_highlight'' (JObject [(''text'', JString ''hello'' :: int jsval)])
    = ([post_highlights [JObject [(''text'', JString ''hello'')]]],
       Inl (AxiosError ''Request failed with status code 401''))
   \<and> callTool (failing_api (AxiosError ''Request failed with status code 401'')) stub_stringify
        ''create_highlight'' (JObject [(''text'', JString ''hello'' :: int jsval)])
    = ([post_highlights [JObject [(''text'', JString ''hello'')]]],
       Inr \<lparr>content = [\<lparr>type = ''text'', text = ''Error: Request failed with status code 401''\<rparr>],
            isError = True\<rparr>)
   \<and> read_highlights (JObject [(''highlights'', JArray [JObject [(''text'', JString ''a'' :: int jsval)]])])
    = Inr (JArray [JObject [(''text'', JString ''a'')]])
   \<and> createHighlights (failing_api (AxiosError ''Network Error''))
        (JArray [JObject [(''text'', JString ''a'' :: int jsval)]])
    = ([post_highlights [JObject [(''text'', JString ''a'')]]], Inl (AxiosError ''Network Error''))
   \<and> callTool (failing_api (AxiosError ''Network Error'')) stub_stringify ''create_highlights''
        (JObject [(''highlights'', JArray [JObject [(''text'', JString ''a'' :: int jsval)]])])
    = ([post_highlights [JObject [(''text'', JString ''a'')]]],
       Inr \<lparr>content = [\<lparr>type = ''text'', text = ''Error: Network Error''\<rparr>], isError = True\<rparr>)
   \<and> getHighlights (failing_api (AxiosError ''Network Error'') :: int api)
    = ([get_highlights], Inl (AxiosError ''Network Error''))
   \<and> callTool (failing_api (AxiosError ''Network Error'')) stub_stringify ''get_highlights''
        (JObject [] :: int jsval)
    = ([get_highlights],
       Inr \<lparr>content = [\<lparr>type = ''text'', text = ''Error: Network Error''\<rparr>], isError = True\<rparr>)
   \<and> read_highlights (JUndefined :: int jsval)
    = Inl (TypeError ''Cannot read properties of undefined (reading 'highlights')'')
   \<and> callTool (stub_api JNull) stub_stringify ''create_highlights'' (JUndefined :: int jsval)
    = ([], Inr \<lparr>content = [\<lparr>type = ''text'',
          text = ''Error: Cannot read properties of undefined (reading 'highlights')''\<rparr>],
            isError = True\<rparr>)"
  using callTool_never_throws
    [of "failing_api (AxiosError ''Request failed with status code 401'')" stub_stringify
        "''create_highlight''" "JObject [(''text'', JString ''hello'' :: int jsval)]"
        "[post_highlights [JObject [(''text'', JString ''hello'')]]]"
        "AxiosError ''Request failed with status code 401''" JNull]
    callTool_never_throws
    [of "failing_api (AxiosError ''Network Error'')" stub_stringify "''create_highlights''"
        "JObject [(''highlights'', JArray [JObject [(''text'', JString ''a'' :: int jsval)]])]"
        "[post_highlights [JObject [(''text'', JString ''a'')]]]"
        "AxiosError ''Network Error''" "JArray [JObject [(''text'', JString ''a'')]]"]
    callTool_never_throws
    [of "failing_api (AxiosError ''Network Error'')" stub_stringify "''get_highlights''"
        "JObject [] :: int jsval" "[get_highlights]" "AxiosError ''Network Error''" JNull]
    callTool_never_throws
    [of "stub_api JNull" stub_stringify "''create_highlights''" "JUndefined :: int jsval"
        "[]" "TypeError ''Cannot read properties of undefined (reading 'highlights')''" JNull]
  by (simp add: createHighlight_sent createHighlights_sent getHighlights_def
      try_create_highlight respond_def read_highlights_object
      failing_api_def cleanHighlightData_props cleaned_props_fold
      object_keys_def clean_key_def prop_get_def read_highlights_def error_result_def)

text \<open>
  C4. For a name that is none of \<open>create_highlight\<close>, \<open>create_highlights\<close> and
  \<open>get_highlights\<close>, whatever the arguments, the handler makes no request and returns
  the error result with the text \<open>Error: Unknown tool: \<close> followed by the name.
\<close>

theorem unknown_tool_is_error_result:
  "name \<notin> set known_tools \<Longrightarrow>
   callTool api stringify name args =
     ([], Inr \<lparr>content = [\<lparr>type = ''text'', text = ''Error: Unknown tool: '' @ name\<rparr>],
               isError = True\<rparr>)"
  by (simp add: callTool_caught try_unknown error_result_def)

theorem unknown_tool_is_error_result_witness:
  "''nonexistent_tool'' \<notin> set known_tools
   \<and> callTool (stub_api JNull) stub_stringify ''nonexistent_tool'' (JObject [] :: int jsval) =
       ([], Inr \<lparr>content = [\<lparr>type = ''text'', text = ''Error: Unknown tool: nonexistent_tool''\<rparr>],
                 isError = True\<rparr>)"
proof -
  have unknown: "''nonexistent_tool'' \<notin> set known_tools"
    by (simp add: known_tools_def)
  from unknown unknown_tool_is_error_result [OF unknown, of "stub_api JNull" stub_stringify "JObject []"]
  show ?thesis by simp
qed



text \<open>
  C6. For every list of highlights, createHighlights makes one request, whose
  \<open>highlights\<close> array is the list of the cleaned elements: the same length, the element
  at each position is the cleaning of the element given at that position, and nothing is
  merged or dropped. The tool \<open>create_highlights\<close> posts that same request.
\<close>

theorem createHighlights_elementwise:
  "createHighlights api (JArray hs) =
     ([\<lparr>http_method = POST, url = ''/highlights/'',
        body = JObject [(''highlights'', JArray (map cleanHighlightData hs))]\<rparr>],
      api \<lparr>http_method = POST, url = ''/highlights/'',
        body = JObject [(''highlights'', JArray (map cleanHighlightData hs))]\<rparr>)
   \<and> length (map cleanHighlightData hs) = length hs
   \<and> (i < length hs \<longrightarrow> map cleanHighlightData hs ! i = cleanHighlightData (hs ! i))
   \<and> fst (callTool api stringify ''create_highlights'' (JObject [(''highlights'', JArray hs)]))
       = fst (createHighlights api (JArray hs))"
proof -
  have sent: "fst (callTool api stringify ''create_highlights'' (JObject [(''highlights'', JArray hs)]))
      = fst (createHighlights api (JArray hs))"
  proof (cases "api (post_highlights (map cleanHighlightData hs))")
    case (Inl e)
    then show ?thesis
      by (simp add: callTool_def try_create_highlights read_highlights_object
          createHighlights_sent respond_def)
  next
    case (Inr r)
    then show ?thesis
      by (simp add: callTool_def try_create_highlights read_highlights_object
          createHighlights_sent respond_def)
  qed
  show ?thesis
    by (simp add: sent) (simp add: createHighlights_sent post_highlights_def)
qed

theorem createHighlights_elementwise_witness:
  "(1::nat) < length [JObject [(''text'', JString ''a'')], JObject [(''text'', JString [])],
        JObject [(''text'', JString ''a'' :: int jsval)]]
   \<and> createHighlights (stub_api JNull)
        (JArray [JObject [(''text'', JString ''a'')], JObject [(''text'', JString [])],
           JObject [(''text'', JString ''a'' :: int jsval)]])
      = ([\<lparr>http_method = POST, url = ''/highlights/'',
           body = JObject [(''highlights'',
             JArray [JObject [(''text'', JString ''a'')], JObject [(''text'', JNull)],
               JObject [(''text'', JString ''a'')]])]\<rparr>],
         Inr JNull)"
  using createHighlights_elementwise
    [of "stub_api JNull"
        "[JObject [(''text'', JString ''a'')], JObject [(''text'', JString [])],
          JObject [(''text'', JString ''a'' :: int jsval)]]" 1 stub_stringify]
  by (simp add: stub_api_def cleanHighlightData_props cleaned_props_fold object_keys_def
      clean_key_def prop_get_def prop_set_def)

text \<open>
  C7. Whenever the client method behind a tool succeeds with a response \<open>r\<close>, the
  handler returns the result with \<open>isError\<close> false whose only content item is the text
  of the serialized \<open>r\<close>, for each of the three tools; for \<open>get_highlights\<close> that is the
  serialized form of what getHighlights returns.
\<close>

theorem success_is_serialized:
  "(createHighlight api args = (sent, Inr r) \<longrightarrow>
      callTool api stringify ''create_highlight'' args =
        (sent, Inr \<lparr>content = [\<lparr>type = ''text'', text = stringify r\<rparr>], isError = False\<rparr>))
   \<and> (read_highlights args = Inr hs \<and> createHighlights api hs = (sent, Inr r) \<longrightarrow>
      callTool api stringify ''create_highlights'' args =
        (sent, Inr \<lparr>content = [\<lparr>type = ''text'', text = stringify r\<rparr>], isError = False\<rparr>))
   \<and> (getHighlights api = (sent, Inr r) \<longrightarrow>
      callTool api stringify ''get_highlights'' args =
        (sent, Inr \<lparr>content = [\<lparr>type = ''text'', text = stringify r\<rparr>], isError = False\<rparr>))"
  by (simp add: callTool_passed try_create_highlight try_create_highlights try_get_highlights
      respond_Inr ok_result_def)

theorem success_is_serialized_witness:
  "getHighlights (stub_api (JArray [JObject [(''id'', JNumber (1::int))],
        JObject [(''id'', JNumber 2)], JObject [(''id'', JNumber 3)]]))
     = ([get_highlights], Inr (JArray [JObject [(''id'', JNumber 1)],
        JObject [(''id'', JNumber 2)], JObject [(''id'', JNumber 3)]]))
   \<and> callTool (stub_api (JArray [JObject [(''id'', JNumber (1::int))],
        JObject [(''id'', JNumber 2)], JObject [(''id'', JNumber 3)]])) stub_stringify
        ''get_highlights'' (JObject [])
     = ([get_highlights], Inr \<lparr>content = [\<lparr>type = ''text'', text = ''<json>''\<rparr>], isError = False\<rparr>)
   \<and> createHighlight (stub_api (JNumber 7)) (JObject [(''text'', JString ''hello'' :: int jsval)])
     = ([post_highlights [JObject [(''text'', JString ''hello'')]]], Inr (JNumber 7))
   \<and> callTool (stub_api (JNumber 7)) stub_stringify ''create_highlight''
        (JObject [(''text'', JString ''hello'' :: int jsval)])
     = ([post_highlights [JObject [(''text'', JString ''hello'')]]],
        Inr \<lparr>content = [\<lparr>type = ''text'', text = ''<json>''\<rparr>], isError = False\<rparr>)
   \<and> read_highlights (JObject [(''highlights'', JArray [JObject [(''text'', JString ''a'' :: int jsval)]])])
     = Inr (JArray [JObject [(''text'', JString ''a'')]])
   \<and> createHighlights (stub_api (JNumber 7)) (JArray [JObject [(''text'', JString ''a'' :: int jsval)]])
     = ([post_highlights [JObject [(''text'', JString ''a'')]]], Inr (JNumber 7))
   \<and> callTool (stub_api (JNumber 7)) stub_stringify ''create_highlights''
        (JObject [(''highlights'', JArray [JObject [(''text'', JString ''a'' :: int jsval)]])])
     = ([post_highlights [JObject [(''text'', JString ''a'')]]],
        Inr \<lparr>content = [\<lparr>type = ''text'', text = ''<json>''\<rparr>], isError = False\<rparr>)"
  using success_is_serialized
    [of "stub_api (JArray [JObject [(''id'', JNumber (1::int))],
        JObject [(''id'', JNumber 2)], JObject [(''id'', JNumber 3)]])"
        "JObject []" "[get_highlights]"
        "JArray [JObject [(''id'', JNumber 1)], JObject [(''id'', JNumber 2)], JObject [(''id'', JNumber 3)]]"
        stub_stringify JNull]
    success_is_serialized
    [of "stub_api (JNumber 7)" "JObject [(''text'', JString ''hello'' :: int jsval)]"
        "[post_highlights [JObject [(''text'', JString ''hello'')]]]" "JNumber 7"
        stub_stringify JNull]
    success_is_serialized
    [of "stub_api (JNumber 7)"
        "JObject [(''highlights'', JArray [JObject [(''text'', JString ''a'' :: int jsval)]])]"
        "[post_highlights [JObject [(''text'', JString ''a'')]]]" "JNumber 7"
        stub_stringify "JArray [JObject [(''text'', JString ''a'')]]"]
  by (simp add: getHighlights_def createHighlight_sent createHighlights_sent stub_api_def
      stub_stringify_def read_highlights_object cleanHighlightData_props cleaned_props_fold
      object_keys_def clean_key_def prop_get_def)


section \<open>Properties of the credential resolution\<close>

lemma token_match_at_key:
  "token_match (token_key @ s) =
     (case match_value s of
        Some m \<Rightarrow> Some m
      | None \<Rightarrow> token_match (tl (token_key @ s)))"
  by (simp add: token_key_def split: option.splits)

lemma takeWhile_stop:
  assumes "rest = [] \<or> \<not> plain (hd rest)"
  shows "takeWhile plain rest = []"
  using assms by (cases rest) simp_all

lemma alt_quoted_bare_value:
  assumes "t \<noteq> []" and "\<forall>c \<in> set t. plain c" and "rest = [] \<or> \<not> plain (hd rest)"
  shows "alt_quoted (t @ rest) = Some t"
proof -
  from assms(1) obtain c cs where t: "t = c # cs"
    by (cases t) simp_all
  with assms(2) have "\<not> is_quote c"
    by (simp add: plain_def)
  with t have "alt_quoted (t @ rest) =
      (if takeWhile plain (t @ rest) \<noteq> [] then Some (takeWhile plain (t @ rest)) else None)"
    by (simp add: alt_quoted_def)
  with assms show ?thesis
    by (simp add: takeWhile_stop)
qed

lemma alt_quoted_quoted_value:
  assumes "is_quote q" and "t \<noteq> []" and "\<forall>c \<in> set t. plain c"
    and "rest = [] \<or> \<not> plain (hd rest)"
  shows "alt_quoted (q # t @ rest) = Some t"
  using assms by (simp add: alt_quoted_def takeWhile_stop)

lemma getApiToken_from_file:
  "\<not> truthy env \<Longrightarrow>
   getApiToken env file =
     (case token_from_file file of Some token \<Rightarrow> Inr token | None \<Rightarrow> Inl missing_token)"
  by (simp add: getApiToken_def)

lemma getApiToken_from_env:
  "t \<noteq> [] \<Longrightarrow> getApiToken (Some t) file = Inr t"
  by (simp add: getApiToken_def truthy_def)

lemma resolveToken_no_args: "resolveToken [] env file = getApiToken env file"
  by (simp add: resolveToken_def)

lemma resolveToken_args: "args \<noteq> [] \<Longrightarrow> resolveToken args env file = Inr (hd args)"
  by (simp add: resolveToken_def hd_conv_nth)

lemma newline_is_space: "is_newline c \<Longrightarrow> is_space c"
  by (auto simp: is_newline_def is_space_def)

lemma quote_not_space: "is_quote c \<Longrightarrow> \<not> is_space c \<and> \<not> is_newline c"
  by (auto simp: is_quote_def is_space_def is_newline_def)

lemma bare_class: "(\<lambda>c. \<not> is_space c \<and> \<not> is_newline c) = (\<lambda>c. \<not> is_space c)"
  using newline_is_space by auto

lemma match_value_bare:
  assumes "t \<noteq> []" and "\<forall>c \<in> set t. plain c" and "rest = [] \<or> \<not> plain (hd rest)"
  shows "match_value (t @ rest) = Some (Match (Some t) None)"
  using alt_quoted_bare_value [OF assms] by (simp add: match_value_def)

lemma match_value_quoted:
  assumes "is_quote q" and "t \<noteq> []" and "\<forall>c \<in> set t. plain c"
    and "rest = [] \<or> \<not> plain (hd rest)"
  shows "match_value (q # t @ rest) = Some (Match (Some t) None)"
  using alt_quoted_quoted_value [OF assms] by (simp add: match_value_def)

lemma match_value_second_alternative:
  assumes "is_quote q" and "rest = [] \<or> \<not> plain (hd rest)"
  shows "match_value (q # rest) =
    Some (Match None (Some (q # takeWhile (\<lambda>c. \<not> is_space c) rest)))"
proof -
  from assms have "alt_quoted (q # rest) = None"
    by (simp add: alt_quoted_def takeWhile_stop plain_def)
  moreover from assms(1) have "alt_bare (q # rest) = Some (q # takeWhile (\<lambda>c. \<not> is_space c) rest)"
    using quote_not_space [of q] by (simp add: alt_bare_def bare_class)
  ultimately show ?thesis
    by (simp add: match_value_def)
qed

lemma match_value_none:
  assumes "v = [] \<or> is_newline (hd v)"
  shows "match_value v = None"
proof (cases v)
  case Nil
  then show ?thesis
    by (simp add: match_value_def alt_quoted_def alt_bare_def)
next
  case (Cons c cs)
  with assms have nl: "is_newline c" by simp
  then have "\<not> is_quote c" "\<not> plain c"
    by (auto simp: is_newline_def is_quote_def plain_def)
  with Cons nl show ?thesis
    by (simp add: match_value_def alt_quoted_def alt_bare_def)
qed

lemma matches_at_Suc: "matches_at (c # cs) (Suc j) = matches_at cs j"
  by (simp add: matches_at_def)

lemma token_match_Cons:
  "token_match (c # cs) =
     (if matches_at (c # cs) 0 then match_value (drop (length token_key) (c # cs))
      else token_match cs)"
  by (auto simp: matches_at_def split: option.splits)

lemma matches_before_iff: "matches_before s n \<longleftrightarrow> (\<exists>j<n. matches_at s j)"
  by (auto simp: matches_before_def list_ex_iff)

lemma matches_before_Suc:
  "matches_before (c # cs) (Suc n) = (matches_at (c # cs) 0 \<or> matches_before cs n)"
proof -
  have "matches_before (c # cs) (Suc n) = (\<exists>j<Suc n. matches_at (c # cs) j)"
    by (rule matches_before_iff)
  also have "\<dots> = (matches_at (c # cs) 0 \<or> (\<exists>j<n. matches_at (c # cs) (Suc j)))"
    by (rule Ex_less_Suc2)
  also have "\<dots> = (matches_at (c # cs) 0 \<or> matches_before cs n)"
    by (simp only: matches_at_Suc matches_before_iff)
  finally show ?thesis .
qed

text \<open>The search passes over a prefix in which the expression matches nowhere.\<close>

lemma token_match_leftmost:
  "\<not> matches_before (pre @ s) (length pre) \<Longrightarrow> token_match (pre @ s) = token_match s"
proof (induction pre)
  case Nil
  then show ?case by simp
next
  case (Cons c pre)
  from Cons.prems have "\<not> matches_at (c # pre @ s) 0" and "\<not> matches_before (pre @ s) (length pre)"
    by (simp_all add: matches_before_Suc)
  with Cons.IH show ?case
    by (simp add: token_match_Cons del: token_match.simps)
qed

lemma token_match_nowhere:
  assumes "\<not> matches_before s (length s)"
  shows "token_match s = None"
  using token_match_leftmost [of s "[]"] assms by simp

lemma file_token_group2:
  assumes "\<not> truthy env" and "\<not> matches_before (pre @ token_key @ v) (length pre)"
    and "match_value v = Some (Match (Some t) None)" and "t \<noteq> []"
  shows "resolveToken [] env (Contents (pre @ token_key @ v)) = Inr t"
  using assms token_match_leftmost [of pre "token_key @ v"]
  by (simp add: resolveToken_no_args getApiToken_from_file token_from_file_def
      token_match_at_key truthy_def)

lemma file_token_group3:
  assumes "\<not> truthy env" and "\<not> matches_before (pre @ token_key @ v) (length pre)"
    and "match_value v = Some (Match None (Some t))" and "t \<noteq> []"
  shows "resolveToken [] env (Contents (pre @ token_key @ v)) = Inr t"
  using assms token_match_leftmost [of pre "token_key @ v"]
  by (simp add: resolveToken_no_args getApiToken_from_file token_from_file_def
      token_match_at_key truthy_def)

lemma file_without_match:
  assumes "\<not> truthy env" and "\<not> matches_before s (length s)"
  shows "resolveToken [] env (Contents s) = Inl missing_token"
  using assms token_match_nowhere [of s]
  by (simp add: resolveToken_no_args getApiToken_from_file token_from_file_def)

lemma spec_example_file:
  "token_from_file (Contents (''READWISE_API_TOKEN='' @ [CHR 0x22] @ ''abc123'' @ [CHR 0x22]))
     = Some ''abc123''"
  by code_simp

lemma trailing_space_file:
  "token_from_file (Contents ''READWISE_API_TOKEN=abc123 '') = Some ''abc123 ''"
  by code_simp

text \<open>
  The start of the process with a token on the command line only: the import of the client
  module fails before index.ts looks at its arguments.
\<close>

lemma start_process_argument_only:
  "start_process (token # args) None NoFile = Uncaught missing_token"
  by (simp add: start_process_def getApiToken_def truthy_def token_from_file_def)

lemma start_process_serving:
  "getApiToken env file = Inr t \<Longrightarrow>
   start_process args env file = Serving (if args = [] then t else hd args)"
  by (simp add: start_process_def resolveToken_def hd_conv_nth)

section \<open>The claims about the credential resolution\<close>

text \<open>
  C3, as stated, fails: a first command-line argument that is the empty string is used as
  the token, although the environment variable holds one.
\<close>

theorem empty_argument_is_used:
  "resolveToken [''''] (Some ''tok'') NoFile = Inr ''''
   \<and> resolveToken [''''] (Some ''tok'') NoFile \<noteq> Inr ''tok''"
  by (simp add: resolveToken_def)

text \<open>
  C3, amended. The first match wins and nothing is merged. The first command-line argument
  is the token whenever there is one, also when it is the empty string. With no argument,
  the environment variable is the token when it is set and not empty, whatever the file
  holds. Otherwise the token is the value matched in the file. The resolution fails exactly
  when there is no argument, the variable is unset or empty and the file gives no value, and
  then with the error that says the token was not found.
\<close>

theorem resolveToken_first_match:
  "(args \<noteq> [] \<longrightarrow> resolveToken args env file = Inr (hd args))
   \<and> (t \<noteq> [] \<longrightarrow> resolveToken [] (Some t) file = Inr t)
   \<and> (\<not> truthy env \<and> token_from_file file = Some t \<longrightarrow> resolveToken [] env file = Inr t)
   \<and> (resolveToken args env file = Inl e \<longleftrightarrow>
        args = [] \<and> \<not> truthy env \<and> token_from_file file = None \<and> e = missing_token)"
proof -
  have fails: "resolveToken args env file = Inl e \<longleftrightarrow>
      args = [] \<and> \<not> truthy env \<and> token_from_file file = None \<and> e = missing_token"
  proof (cases "args = []")
    case True
    show ?thesis
    proof (cases "truthy env")
      case truthy: True
      then obtain t' where "env = Some t'"
        by (cases env) (simp_all add: truthy_def)
      with True truthy show ?thesis
        by (simp add: resolveToken_no_args getApiToken_def)
    next
      case False
      with True show ?thesis
        by (cases "token_from_file file")
          (auto simp: resolveToken_no_args getApiToken_from_file)
    qed
  next
    case False
    then show ?thesis
      by (simp add: resolveToken_args)
  qed
  show ?thesis
    by (simp add: fails resolveToken_args resolveToken_no_args getApiToken_from_env
        getApiToken_from_file)
qed

theorem resolveToken_first_match_witness:
  "[''cli'', ''more''] \<noteq> []
   \<and> resolveToken [''cli'', ''more''] (Some ''fromenv'') (Contents ''READWISE_API_TOKEN=abc123 '')
       = Inr ''cli''
   \<and> ''fromenv'' \<noteq> []
   \<and> resolveToken [] (Some ''fromenv'') (Contents ''READWISE_API_TOKEN=abc123 '') = Inr ''fromenv''
   \<and> \<not> truthy (Some [])
   \<and> token_from_file (Contents ''READWISE_API_TOKEN=abc123 '') = Some ''abc123 ''
   \<and> resolveToken [] (Some []) (Contents ''READWISE_API_TOKEN=abc123 '') = Inr ''abc123 ''
   \<and> resolveToken [] None ReadError = Inl missing_token"
  using resolveToken_first_match
    [of "[''cli'', ''more'']" "Some ''fromenv''" "Contents ''READWISE_API_TOKEN=abc123 ''"
        "''fromenv''" missing_token]
    resolveToken_first_match
    [of "[]" "Some []" "Contents ''READWISE_API_TOKEN=abc123 ''" "''abc123 ''" missing_token]
    resolveToken_first_match
    [of "[]" None ReadError "''x''" missing_token]
    trailing_space_file
  by (simp add: truthy_def token_from_file_def)

text \<open>
  C8, as stated, fails: spaces after an unquoted value are not tolerated, they become part
  of the token. Here the variable is set to the empty string, so that it holds no token
  and the dotenv library leaves it alone, and the file holds the key, the value and a
  space.
\<close>

theorem trailing_space_is_kept:
  "resolveToken [] (Some '''') (Contents ''READWISE_API_TOKEN=abc123 '') = Inr ''abc123 ''
   \<and> resolveToken [] (Some '''') (Contents ''READWISE_API_TOKEN=abc123 '') \<noteq> Inr ''abc123''"
  using trailing_space_file
  by (simp add: resolveToken_no_args getApiToken_from_file truthy_def)

text \<open>
  C8, amended. With no argument and the variable unset or empty, the token is read from
  the file, at the first place (anywhere in the file, after any other lines) where the key
  \<open>READWISE_API_TOKEN=\<close> is followed by a value; a key followed at once by a carriage
  return, a line feed or the end of the file has no value and is passed over.
  A value made of characters other than quotes, carriage return and line feed is taken up
  to the first quote, carriage return or line feed or to the end of the file, and a quote
  in front of it is dropped: so surrounding quotes and newlines after the value are
  tolerated, and the line \<open>READWISE_API_TOKEN="abc123"\<close> gives \<open>abc123\<close>. Spaces and
  tabs are characters of such a value. A quote that no such character follows starts a
  value that keeps the quote and runs to the first whitespace. A file in which the
  expression matches nowhere, a file that cannot be read and a file that is not there
  give no token: the resolution fails with the error that says the token was not found.
\<close>

theorem token_from_env_file:
  "(\<not> truthy env \<longrightarrow>
      resolveToken [] env
        (Contents (''READWISE_API_TOKEN='' @ [CHR 0x22] @ ''abc123'' @ [CHR 0x22])) = Inr ''abc123'')
   \<and> (\<not> truthy env \<and> \<not> matches_before (pre @ token_key @ t @ rest) (length pre)
        \<and> t \<noteq> [] \<and> (\<forall>c \<in> set t. plain c) \<and> (rest = [] \<or> \<not> plain (hd rest)) \<longrightarrow>
        resolveToken [] env (Contents (pre @ token_key @ t @ rest)) = Inr t)
   \<and> (\<not> truthy env \<and> \<not> matches_before (pre @ token_key @ q # t @ rest) (length pre)
        \<and> is_quote q \<and> t \<noteq> [] \<and> (\<forall>c \<in> set t. plain c)
        \<and> (rest = [] \<or> \<not> plain (hd rest)) \<longrightarrow>
        resolveToken [] env (Contents (pre @ token_key @ q # t @ rest)) = Inr t)
   \<and> (\<not> truthy env \<and> \<not> matches_before (pre @ token_key @ q # rest) (length pre)
        \<and> is_quote q \<and> (rest = [] \<or> \<not> plain (hd rest)) \<longrightarrow>
        resolveToken [] env (Contents (pre @ token_key @ q # rest))
          = Inr (q # takeWhile (\<lambda>c. \<not> is_space c) rest))
   \<and> (v = [] \<or> is_newline (hd v) \<longrightarrow> \<not> matches_at (pre @ token_key @ v) (length pre))
   \<and> (take (length token_key) (drop i s) \<noteq> token_key \<longrightarrow> \<not> matches_at s i)
   \<and> (\<not> truthy env \<and> \<not> matches_before s (length s) \<longrightarrow>
        resolveToken [] env (Contents s) = Inl missing_token)
   \<and> (\<not> truthy env \<longrightarrow>
        resolveToken [] env ReadError = Inl missing_token
        \<and> resolveToken [] env NoFile = Inl missing_token)"
proof -
  have example: "\<not> truthy env \<longrightarrow> resolveToken [] env
      (Contents (''READWISE_API_TOKEN='' @ [CHR 0x22] @ ''abc123'' @ [CHR 0x22])) = Inr ''abc123''"
    using spec_example_file
    by (simp add: resolveToken_no_args getApiToken_from_file)
  have bare: "\<not> truthy env \<and> \<not> matches_before (pre @ token_key @ t @ rest) (length pre)
        \<and> t \<noteq> [] \<and> (\<forall>c \<in> set t. plain c) \<and> (rest = [] \<or> \<not> plain (hd rest)) \<longrightarrow>
      resolveToken [] env (Contents (pre @ token_key @ t @ rest)) = Inr t"
    using file_token_group2 [of env pre "t @ rest" t] match_value_bare [of t rest]
    by blast
  have quoted: "\<not> truthy env \<and> \<not> matches_before (pre @ token_key @ q # t @ rest) (length pre)
        \<and> is_quote q \<and> t \<noteq> [] \<and> (\<forall>c \<in> set t. plain c)
        \<and> (rest = [] \<or> \<not> plain (hd rest)) \<longrightarrow>
      resolveToken [] env (Contents (pre @ token_key @ q # t @ rest)) = Inr t"
    using file_token_group2 [of env pre "q # t @ rest" t] match_value_quoted [of q t rest]
    by blast
  have second: "\<not> truthy env \<and> \<not> matches_before (pre @ token_key @ q # rest) (length pre)
        \<and> is_quote q \<and> (rest = [] \<or> \<not> plain (hd rest)) \<longrightarrow>
      resolveToken [] env (Contents (pre @ token_key @ q # rest))
        = Inr (q # takeWhile (\<lambda>c. \<not> is_space c) rest)"
    using file_token_group3 [of env pre "q # rest" "q # takeWhile (\<lambda>c. \<not> is_space c) rest"]
      match_value_second_alternative [of q rest]
    by blast
  have no_value: "v = [] \<or> is_newline (hd v) \<longrightarrow> \<not> matches_at (pre @ token_key @ v) (length pre)"
    using match_value_none [of v] by (simp add: matches_at_def)
  have no_key: "take (length token_key) (drop i s) \<noteq> token_key \<longrightarrow> \<not> matches_at s i"
    by (simp add: matches_at_def)
  have nowhere: "\<not> truthy env \<and> \<not> matches_before s (length s) \<longrightarrow>
      resolveToken [] env (Contents s) = Inl missing_token"
    using file_without_match [of env s] by blast
  have unreadable: "\<not> truthy env \<longrightarrow>
      resolveToken [] env ReadError = Inl missing_token
      \<and> resolveToken [] env NoFile = Inl missing_token"
    by (simp add: resolveToken_no_args getApiToken_from_file token_from_file_def)
  from example bare quoted second no_value no_key nowhere unreadable show ?thesis
    by blast
qed

theorem token_from_env_file_witness:
  "\<not> truthy (Some '''')
   \<and> \<not> matches_before (''DEBUG=1'' @ [CHR 0x0A] @ token_key @ ''abc123'' @ [CHR 0x0D, CHR 0x0A] @ ''OTHER=2'')
        (length (''DEBUG=1'' @ [CHR 0x0A]))
   \<and> list_all plain ''abc123'' \<and> \<not> plain (hd ([CHR 0x0D, CHR 0x0A] @ ''OTHER=2''))
   \<and> resolveToken [] (Some '''')
        (Contents (''DEBUG=1'' @ [CHR 0x0A] @ token_key @ ''abc123'' @ [CHR 0x0D, CHR 0x0A] @ ''OTHER=2''))
       = Inr ''abc123''
   \<and> \<not> matches_before (''DEBUG=1'' @ [CHR 0x0A] @ token_key @ CHR 0x27 # ''abc123'' @ [CHR 0x27] @ ''  '')
        (length (''DEBUG=1'' @ [CHR 0x0A]))
   \<and> is_quote (CHR 0x27) \<and> \<not> plain (hd ([CHR 0x27] @ ''  ''))
   \<and> resolveToken [] (Some '''')
        (Contents (''DEBUG=1'' @ [CHR 0x0A] @ token_key @ CHR 0x27 # ''abc123'' @ [CHR 0x27] @ ''  ''))
       = Inr ''abc123''
   \<and> \<not> matches_before (token_key @ [CHR 0x0A] @ token_key @ ''zz'') (length (token_key @ [CHR 0x0A]))
   \<and> resolveToken [] (Some '''') (Contents (token_key @ [CHR 0x0A] @ token_key @ ''zz'')) = Inr ''zz''
   \<and> is_quote (CHR 0x22) \<and> \<not> plain (hd [CHR 0x22])
   \<and> resolveToken [] (Some '''') (Contents (token_key @ [CHR 0x22, CHR 0x22])) = Inr [CHR 0x22, CHR 0x22]
   \<and> is_newline (hd [CHR 0x0A])
   \<and> \<not> matches_at (token_key @ [CHR 0x0A]) 0
   \<and> take (length token_key) (drop 0 ''DEBUG=1'') \<noteq> token_key
   \<and> \<not> matches_at ''DEBUG=1'' 0
   \<and> \<not> matches_before ''DEBUG=1'' (length ''DEBUG=1'')
   \<and> resolveToken [] (Some '''') (Contents ''DEBUG=1'') = Inl missing_token
   \<and> resolveToken [] (Some '''') ReadError = Inl missing_token
   \<and> resolveToken [] (Some '''') NoFile = Inl missing_token"
proof -
  have env: "\<not> truthy (Some '''')"
    by (simp add: truthy_def)
  have chars: "\<forall>c \<in> set ''abc123''. plain c" "list_all plain ''abc123''"
    "\<not> plain (hd ([CHR 0x0D, CHR 0x0A] @ ''OTHER=2''))" "\<not> plain (hd ([CHR 0x27] @ ''  ''))"
    "is_quote (CHR 0x27)" "is_quote (CHR 0x22)" "\<not> plain (hd [CHR 0x22])"
    "is_newline (hd [CHR 0x0A])" "\<forall>c \<in> set ''zz''. plain c"
    by (simp_all add: plain_def is_quote_def is_newline_def)
  have before1: "\<not> matches_before
      (''DEBUG=1'' @ [CHR 0x0A] @ token_key @ ''abc123'' @ [CHR 0x0D, CHR 0x0A] @ ''OTHER=2'')
      (length (''DEBUG=1'' @ [CHR 0x0A]))"
    by code_simp
  have before2: "\<not> matches_before
      (''DEBUG=1'' @ [CHR 0x0A] @ token_key @ CHR 0x27 # ''abc123'' @ [CHR 0x27] @ ''  '')
      (length (''DEBUG=1'' @ [CHR 0x0A]))"
    by code_simp
  have before3: "\<not> matches_before (token_key @ [CHR 0x0A] @ token_key @ ''zz'')
      (length (token_key @ [CHR 0x0A]))"
    by code_simp
  have before4: "\<not> matches_before ''DEBUG=1'' (length ''DEBUG=1'')"
    by code_simp
  have nokey: "take (length token_key) (drop 0 ''DEBUG=1'') \<noteq> token_key"
    by (simp add: token_key_def)
  note main = token_from_env_file
  have r1: "resolveToken [] (Some '''')
      (Contents (''DEBUG=1'' @ [CHR 0x0A] @ token_key @ ''abc123'' @ [CHR 0x0D, CHR 0x0A] @ ''OTHER=2''))
      = Inr ''abc123''"
    using main [where env = "Some ''''" and pre = "''DEBUG=1'' @ [CHR 0x0A]" and t = "''abc123''"
        and rest = "[CHR 0x0D, CHR 0x0A] @ ''OTHER=2''"] env chars before1
    by simp
  have r2: "resolveToken [] (Some '''')
      (Contents (''DEBUG=1'' @ [CHR 0x0A] @ token_key @ CHR 0x27 # ''abc123'' @ [CHR 0x27] @ ''  ''))
      = Inr ''abc123''"
    using main [where env = "Some ''''" and pre = "''DEBUG=1'' @ [CHR 0x0A]" and t = "''abc123''"
        and rest = "[CHR 0x27] @ ''  ''" and q = "CHR 0x27"] env chars before2
    by simp
  have r3: "resolveToken [] (Some '''') (Contents (token_key @ [CHR 0x0A] @ token_key @ ''zz''))
      = Inr ''zz''"
    using main [where env = "Some ''''" and pre = "token_key @ [CHR 0x0A]" and t = "''zz''"
        and rest = "[]"] env chars before3
    by simp
  have r4: "resolveToken [] (Some '''') (Contents (token_key @ [CHR 0x22, CHR 0x22]))
      = Inr [CHR 0x22, CHR 0x22]"
    using main [where env = "Some ''''" and pre = "[]" and q = "CHR 0x22" and rest = "[CHR 0x22]"]
      env chars
    by (simp add: matches_before_def is_space_def)
  have r5: "\<not> matches_at (token_key @ [CHR 0x0A]) 0"
    using main [where pre = "[]" and v = "[CHR 0x0A]"] chars
    by simp
  have r6: "\<not> matches_at ''DEBUG=1'' 0"
    using main [where s = "''DEBUG=1''" and i = 0] nokey
    by simp
  have r7: "resolveToken [] (Some '''') (Contents ''DEBUG=1'') = Inl missing_token"
    using main [where env = "Some ''''" and s = "''DEBUG=1''"] env before4
    by simp
  have r8: "resolveToken [] (Some '''') ReadError = Inl missing_token"
    "resolveToken [] (Some '''') NoFile = Inl missing_token"
    using main [where env = "Some ''''"] env
    by simp_all
  from env chars before1 before2 before3 before4 nokey r1 r2 r3 r4 r5 r6 r7 r8
  show ?thesis
    by simp
qed

end
